theory Spec2Isabelle
  imports Main "HOL-Library.AList" "HOL-Library.Sublist"
begin

section \<open>Python values, exceptions and arrays\<close>

text \<open>
  Exceptions raised by the two modules (pybug/spatialdata/mesh/__init__.py and
  pybug/transform/base.py) and by the Python and numpy primitives they call.  Each
  constructor carries what the exception object is built from in the source.
\<close>

datatype error =
    FieldError string
  | TriFieldError string
  | NameError string
  | TypeError string
  | Exception string
  | IndexError
  | ValueError
  | AttributeError string
  | OtherError string

text \<open>
  A numpy array with at least one axis: the entries along the leading axis (each kept
  flat) and the remaining shape.  \<open>field.shape[0]\<close> and \<open>len(field)\<close> are the number of
  rows.
\<close>

record 'a ndarray =
  rows :: "'a list list"
  inner :: "nat list"

definition shape :: "'a ndarray \<Rightarrow> nat list" where
  "shape a = length (rows a) # inner a"

text \<open>Python classes: a qualified name and the direct base classes.\<close>

datatype pyclass = PyClass (cls_name: string) (cls_bases: "pyclass list")

fun issubclass :: "pyclass \<Rightarrow> pyclass \<Rightarrow> bool" where
  "issubclass (PyClass n bs) c = (PyClass n bs = c \<or> list_ex (\<lambda>b. issubclass b c) bs)"

definition PointCloud3d :: pyclass where
  "PointCloud3d = PyClass ''pybug.spatialdata.PointCloud3d'' []"

definition CppTriangleMesh :: pyclass where
  "CppTriangleMesh = PyClass ''cpptrianglemesh.CppTriangleMesh'' []"

definition TriMesh :: pyclass where
  "TriMesh = PyClass ''pybug.spatialdata.mesh.TriMesh'' [PointCloud3d]"

definition FastTriMesh :: pyclass where
  "FastTriMesh = PyClass ''pybug.spatialdata.mesh.FastTriMesh'' [TriMesh, CppTriangleMesh]"

definition PolyMesh :: pyclass where
  "PolyMesh = PyClass ''pybug.spatialdata.mesh.PolyMesh'' [PointCloud3d]"

text \<open>The values the keyword argument \<open>astype\<close> can be bound to.\<close>

datatype pyobj = PyStr string | PyInt int | PyNone | PyCls pyclass

text \<open>\<open>repr\<close> of a natural number (the backquotes of the source) and of a class.\<close>

fun repr_nat :: "nat \<Rightarrow> string" where
  "repr_nat n =
     (if n < 10 then [''0123456789'' ! n]
      else repr_nat (n div 10) @ [''0123456789'' ! (n mod 10)])"

declare repr_nat.simps [simp del]

definition repr_cls :: "pyclass \<Rightarrow> string" where
  "repr_cls c = ''<class '' @ [CHR 0x27] @ cls_name c @ [CHR 0x27] @ ''>''"

section \<open>numpy indexing\<close>

definition np_arange :: "nat \<Rightarrow> int list" where
  "np_arange n = map int [0..<n]"

text \<open>\<open>xs[mask]\<close> with a boolean mask: the mask has to be as long as the axis.\<close>

definition bool_index :: "'a list \<Rightarrow> bool list \<Rightarrow> error + 'a list" where
  "bool_index xs bmask =
     (if length bmask \<noteq> length xs then Inl IndexError
      else Inr (map fst (filter snd (zip xs bmask))))"

text \<open>\<open>xs[i]\<close> with an integer: negative indices count from the end, out of range raises.\<close>

definition int_index :: "'a list \<Rightarrow> int \<Rightarrow> error + 'a" where
  "int_index xs i =
     (let n = int (length xs); j = (if i < 0 then i + n else i)
      in if 0 \<le> j \<and> j < n then Inr (xs ! nat j) else Inl IndexError)"

text \<open>\<open>xs[idx]\<close> with a one-dimensional integer index array.\<close>

fun take_rows :: "'a list \<Rightarrow> int list \<Rightarrow> error + 'a list" where
  "take_rows xs [] = Inr []"
| "take_rows xs (i # idx) =
     (case int_index xs i of
        Inl e \<Rightarrow> Inl e
      | Inr v \<Rightarrow> (case take_rows xs idx of Inl e \<Rightarrow> Inl e | Inr vs \<Rightarrow> Inr (v # vs)))"

text \<open>\<open>xs[tris]\<close> with a (T, 3) integer index array, one triangle at a time.\<close>

definition take_tri :: "'a list \<Rightarrow> int \<times> int \<times> int \<Rightarrow> error + ('a \<times> 'a \<times> 'a)" where
  "take_tri xs t =
     (case t of (a, b, c) \<Rightarrow>
        (case int_index xs a of Inl e \<Rightarrow> Inl e | Inr x \<Rightarrow>
        (case int_index xs b of Inl e \<Rightarrow> Inl e | Inr y \<Rightarrow>
        (case int_index xs c of Inl e \<Rightarrow> Inl e | Inr z \<Rightarrow> Inr (x, y, z)))))"

fun take_tris :: "'a list \<Rightarrow> (int \<times> int \<times> int) list \<Rightarrow> error + ('a \<times> 'a \<times> 'a) list" where
  "take_tris xs [] = Inr []"
| "take_tris xs (t # ts) =
     (case take_tri xs t of
        Inl e \<Rightarrow> Inl e
      | Inr v \<Rightarrow> (case take_tris xs ts of Inl e \<Rightarrow> Inl e | Inr vs \<Rightarrow> Inr (v # vs)))"

text \<open>\<open>xs[idx] = vals\<close> with a one-dimensional integer index array.\<close>

fun put_rows :: "'a list \<Rightarrow> int list \<Rightarrow> 'a list \<Rightarrow> error + 'a list" where
  "put_rows xs [] [] = Inr xs"
| "put_rows xs (i # idx) (v # vals) =
     (let n = int (length xs); j = (if i < 0 then i + n else i)
      in if 0 \<le> j \<and> j < n then put_rows (xs[nat j := v]) idx vals else Inl IndexError)"
| "put_rows xs _ _ = Inl ValueError"

text \<open>\<open>np.in1d\<close> followed by the reshape, and \<open>np.all(axis=1)\<close>, on one triangle.\<close>

definition np_in1d :: "int list \<Rightarrow> int \<times> int \<times> int \<Rightarrow> bool \<times> bool \<times> bool" where
  "np_in1d kept t = (case t of (a, b, c) \<Rightarrow> (a \<in> set kept, b \<in> set kept, c \<in> set kept))"

definition np_all_axis1 :: "bool \<times> bool \<times> bool \<Rightarrow> bool" where
  "np_all_axis1 t = (case t of (a, b, c) \<Rightarrow> a \<and> b \<and> c)"

definition tri_verts :: "int \<times> int \<times> int \<Rightarrow> int list" where
  "tri_verts t = (case t of (a, b, c) \<Rightarrow> [a, b, c])"

text \<open>\<open>np.unique\<close> of a (T, 3) index array: the sorted distinct entries.\<close>

definition np_unique :: "(int \<times> int \<times> int) list \<Rightarrow> int list" where
  "np_unique ts = sort (remdups (concat (map tri_verts ts)))"

text \<open>\<open>astype(np.uint32)\<close> on a float that holds a non-negative integer.\<close>

definition astype_uint32 :: "int \<Rightarrow> int" where
  "astype_uint32 x = x mod 2 ^ 32"

definition astype_uint32_tri :: "int \<times> int \<times> int \<Rightarrow> int \<times> int \<times> int" where
  "astype_uint32_tri t =
     (case t of (a, b, c) \<Rightarrow> (astype_uint32 a, astype_uint32 b, astype_uint32 c))"

section \<open>TriMesh\<close>

text \<open>
  The instance state of a TriMesh: its class, the attributes set by
  \<open>PointCloud3d.__init__\<close> (points, pointfields) and those set by \<open>TriMesh.__init__\<close>.
  A dictionary is an association list in iteration order; \<open>d[name] = v\<close> is
  \<open>AList.update\<close>.  The triangle list is a (T, 3) integer array.
\<close>

record ('a, 't) trimesh =
  cls :: pyclass
  points :: "'a ndarray"
  pointfields :: "(string \<times> 'a ndarray) list"
  trilist :: "(int \<times> int \<times> int) list"
  trifields :: "(string \<times> 'a ndarray) list"
  texture :: "'t option"

text \<open>
  Modelled from the spec: \<open>PointCloud3d.__init__\<close> is not part of the sources at hand.
  The spec has the constructor store the points and start with empty field tables.
  \<open>TriMesh.__init__\<close> then sets the triangle list, an empty triangle field table and no
  texture.  A subclass is taken to build its instances as TriMesh does; FastTriMesh also
  runs the constructor of the native mesh, which lies outside these sources.
\<close>

definition TriMesh_init ::
  "pyclass \<Rightarrow> 'a ndarray \<Rightarrow> (int \<times> int \<times> int) list \<Rightarrow> ('a, 't) trimesh" where
  "TriMesh_init c pts tlist =
     \<lparr>cls = c, points = pts, pointfields = [], trilist = tlist, trifields = [], texture = None\<rparr>"

text \<open>
  Modelled from the spec: \<open>PointCloud3d.n_points\<close> is not part of the sources at hand.
  The spec has N as the number of points of the point array.
\<close>

definition n_points :: "('a, 't) trimesh \<Rightarrow> nat" where
  "n_points self = length (rows (points self))"

definition n_tris :: "('a, 't) trimesh \<Rightarrow> nat" where
  "n_tris self = length (trilist self)"

definition field_size_msg :: "string \<Rightarrow> nat \<Rightarrow> nat \<Rightarrow> string" where
  "field_size_msg per supplied required =
     ''Trying to add a field with '' @ repr_nat supplied @
     '' values (need one field value per '' @ per @ '' => '' @ repr_nat required @
     '' values required''"

text \<open>
  Modelled from the spec: \<open>PointCloud3d.add_pointfield\<close> is not part of the sources at
  hand.  The spec has it insert or overwrite the named entry, and fail with a field
  dimension error that reports both sizes when the leading dimension is not N.
  A mutating method returns the exception raised, if any, and the state of the receiver.
\<close>

definition add_pointfield ::
  "string \<Rightarrow> 'a ndarray \<Rightarrow> ('a, 't) trimesh \<Rightarrow> error option \<times> ('a, 't) trimesh" where
  "add_pointfield name field self =
     (if length (rows field) \<noteq> n_points self
      then (Some (FieldError (field_size_msg ''point'' (length (rows field)) (n_points self))),
            self)
      else (None, self\<lparr>pointfields := AList.update name field (pointfields self)\<rparr>))"

definition add_trifield ::
  "string \<Rightarrow> 'a ndarray \<Rightarrow> ('a, 't) trimesh \<Rightarrow> error option \<times> ('a, 't) trimesh" where
  "add_trifield name field self =
     (if length (rows field) \<noteq> n_tris self
      then (Some (TriFieldError (field_size_msg ''tri'' (length (rows field)) (n_tris self))),
            self)
      else (None, self\<lparr>trifields := AList.update name field (trifields self)\<rparr>))"

text \<open>\<open>tcoords[tcoords_trilist]\<close>: a (T, 3) index array gathers three rows per triangle.\<close>

definition gather_tris ::
  "'a ndarray \<Rightarrow> (int \<times> int \<times> int) list \<Rightarrow> error + 'a ndarray" where
  "gather_tris a tlist =
     (case take_tris (rows a) tlist of
        Inl e \<Rightarrow> Inl e
      | Inr rs \<Rightarrow> Inr \<lparr>rows = map (\<lambda>(x, y, z). x @ y @ z) rs, inner = 3 # inner a\<rparr>)"

text \<open>
  \<open>attach_texture\<close>.  The module binds no name \<open>TextureError\<close> (it imports PointCloud3d
  and FieldError only), so evaluating the \<open>raise\<close> of the last branch raises NameError.
\<close>

definition attach_texture ::
  "'t option \<Rightarrow> 'a ndarray \<Rightarrow> (int \<times> int \<times> int) list option \<Rightarrow> ('a, 't) trimesh
     \<Rightarrow> error option \<times> ('a, 't) trimesh" where
  "attach_texture tex tcoords tcoords_trilist self0 =
     (let self = self0\<lparr>texture := tex\<rparr> in
      case tcoords_trilist of
        Some tlist \<Rightarrow>
          (case gather_tris tcoords tlist of
             Inl e \<Rightarrow> (Some e, self)
           | Inr g \<Rightarrow> add_trifield ''tcoords'' g self)
      | None \<Rightarrow>
          if shape tcoords = [n_points self, 2] then add_pointfield ''tcoords'' tcoords self
          else if shape tcoords = [n_tris self, 3, 2] then add_trifield ''tcoords'' tcoords self
          else (Some (NameError ''TextureError''), self))"

subsection \<open>Sub-mesh extraction\<close>

definition bind_err :: "error + 'a \<Rightarrow> ('a \<Rightarrow> error + 'b) \<Rightarrow> error + 'b" where
  "bind_err r f = (case r of Inl e \<Rightarrow> Inl e | Inr v \<Rightarrow> f v)"

text \<open>The choice of the class of the new mesh (lines 105 to 111).\<close>

definition mesh_type_msg :: "pyclass \<Rightarrow> string" where
  "mesh_type_msg c =
     ''The mesh type '' @ repr_cls c @ '' is not understood'' @
     '' (need to be an instance of TriMesh)''"

definition resolve_astype :: "pyclass \<Rightarrow> pyobj \<Rightarrow> error + pyclass" where
  "resolve_astype self_cls astype =
     (if astype = PyStr ''self'' then Inr self_cls
      else case astype of
             PyCls c \<Rightarrow> if issubclass c TriMesh then Inr c else Inl (Exception (mesh_type_msg c))
           | _ \<Rightarrow> Inl (TypeError ''issubclass() arg 1 must be a class''))"

text \<open>The two loops over the field dictionaries (lines 116 to 119).\<close>

fun transfer_pointfields ::
  "(string \<times> 'a ndarray) list \<Rightarrow> int list \<Rightarrow> ('a, 't) trimesh \<Rightarrow> error + ('a, 't) trimesh" where
  "transfer_pointfields [] kept newtrimesh = Inr newtrimesh"
| "transfer_pointfields ((name, field) # rest) kept newtrimesh =
     (case take_rows (rows field) kept of
        Inl e \<Rightarrow> Inl e
      | Inr rs \<Rightarrow>
          (case add_pointfield name \<lparr>rows = rs, inner = inner field\<rparr> newtrimesh of
             (Some e, _) \<Rightarrow> Inl e
           | (None, m) \<Rightarrow> transfer_pointfields rest kept m))"

fun transfer_trifields ::
  "(string \<times> 'a ndarray) list \<Rightarrow> bool list \<Rightarrow> ('a, 't) trimesh \<Rightarrow> error + ('a, 't) trimesh" where
  "transfer_trifields [] tris_mask newtrimesh = Inr newtrimesh"
| "transfer_trifields ((name, field) # rest) tris_mask newtrimesh =
     (case bool_index (rows field) tris_mask of
        Inl e \<Rightarrow> Inl e
      | Inr rs \<Rightarrow>
          (case add_trifield name \<lparr>rows = rs, inner = inner field\<rparr> newtrimesh of
             (Some e, _) \<Rightarrow> Inl e
           | (None, m) \<Rightarrow> transfer_trifields rest tris_mask m))"

text \<open>Lines 87 to 90: which triangles have all three vertices among the kept points.\<close>

definition tris_mask_of :: "int list \<Rightarrow> (int \<times> int \<times> int) list \<Rightarrow> bool list" where
  "tris_mask_of kept tlist = map (\<lambda>t. np_all_axis1 (np_in1d kept t)) tlist"

text \<open>
  \<open>trimesh_from_pointmask\<close>, statement by statement.  \<open>pi_map\<close> is an array of floats in
  the source; it only ever holds the integers written into it.
\<close>

definition trimesh_from_pointmask ::
  "bool list \<Rightarrow> pyobj \<Rightarrow> ('a, 't) trimesh \<Rightarrow> error + ('a, 't) trimesh" where
  "trimesh_from_pointmask pointmask astype self =
     bind_err (bool_index (np_arange (n_points self)) pointmask) (\<lambda>kept_points_orig_index0.
     let tris_mask = tris_mask_of kept_points_orig_index0 (trilist self) in
     bind_err (bool_index (trilist self) tris_mask) (\<lambda>kept_tris_orig_index.
     let kept_points_orig_index = np_unique kept_tris_orig_index in
     bind_err (take_rows (rows (points self)) kept_points_orig_index) (\<lambda>new_rows.
     let new_points = \<lparr>rows = new_rows, inner = inner (points self)\<rparr>;
         kept_points_new_index = np_arange (length kept_points_orig_index) in
     bind_err (put_rows (replicate (n_points self) 0) kept_points_orig_index kept_points_new_index)
       (\<lambda>pi_map.
     bind_err (take_tris pi_map kept_tris_orig_index) (\<lambda>mapped.
     let new_trilist = map astype_uint32_tri mapped in
     bind_err (resolve_astype (cls self) astype) (\<lambda>trimeshcls.
     let newtrimesh = TriMesh_init trimeshcls new_points new_trilist in
     bind_err (transfer_pointfields (pointfields self) kept_points_orig_index newtrimesh)
       (\<lambda>newtrimesh1.
     bind_err (transfer_trifields (trifields self) tris_mask newtrimesh1) (\<lambda>newtrimesh2.
     Inr (newtrimesh2\<lparr>texture := texture self\<rparr>)))))))))"

section \<open>Transform.apply\<close>

text \<open>
  A target is any Python value of type \<open>'x\<close>.  Looking up \<open>x._transform\<close> either fails
  (AttributeError) or gives a bound method, which takes the closure and runs on the
  program state \<open>'s\<close>: it returns a value or raises, and leaves a new state.  The
  abstract method \<open>_apply\<close> is a parameter, as are the keyword arguments.
\<close>

type_synonym ('x, 'r, 's) bound_method =
  "('x \<Rightarrow> error + 'x) \<Rightarrow> 's \<Rightarrow> (error + 'r) \<times> 's"

text \<open>The local closure \<open>transform\<close> of \<open>Transform.apply\<close>.\<close>

definition transform :: "('k \<Rightarrow> 'x \<Rightarrow> error + 'x) \<Rightarrow> 'k \<Rightarrow> 'x \<Rightarrow> error + 'x" where
  "transform apply_core kwargs x1 = apply_core kwargs x1"

text \<open>
  \<open>Transform.apply\<close>.  The result is the value returned (\<open>None\<close> for Python's None) or the
  exception that escapes.  The \<open>except AttributeError\<close> clause guards the whole
  expression \<open>x._transform(transform)\<close>: the attribute lookup and the call.
\<close>

definition Transform_apply ::
  "('k \<Rightarrow> 'x \<Rightarrow> error + 'x) \<Rightarrow> ('x \<Rightarrow> ('x, 'r, 's) bound_method option) \<Rightarrow>
     'x \<Rightarrow> 'k \<Rightarrow> 's \<Rightarrow> (error + 'x option) \<times> 's" where
  "Transform_apply apply_core get_transform x kwargs s =
     (case get_transform x of
        None \<Rightarrow> (map_sum id Some (apply_core kwargs x), s)
      | Some meth \<Rightarrow>
          (case meth (transform apply_core kwargs) s of
             (Inl (AttributeError _), s') \<Rightarrow> (map_sum id Some (apply_core kwargs x), s')
           | (Inl e, s') \<Rightarrow> (Inl e, s')
           | (Inr _, s') \<Rightarrow> (Inr None, s')))"

section \<open>Notions used to state the properties\<close>

text \<open>
  The words of the specification of sub-mesh extraction: a point is selected by the mask,
  a triangle survives when its three vertices are selected, and the points used are those
  of the surviving triangles.
\<close>

definition mask_selected :: "bool list \<Rightarrow> int \<Rightarrow> bool" where
  "mask_selected pointmask i = (0 \<le> i \<and> nat i < length pointmask \<and> pointmask ! nat i)"

definition survives :: "bool list \<Rightarrow> int \<times> int \<times> int \<Rightarrow> bool" where
  "survives pointmask t =
     (case t of (a, b, c) \<Rightarrow>
        mask_selected pointmask a \<and> mask_selected pointmask b \<and> mask_selected pointmask c)"

definition surviving_tris ::
  "bool list \<Rightarrow> (int \<times> int \<times> int) list \<Rightarrow> (int \<times> int \<times> int) list" where
  "surviving_tris pointmask tlist = filter (survives pointmask) tlist"

definition used_points :: "bool list \<Rightarrow> (int \<times> int \<times> int) list \<Rightarrow> int set" where
  "used_points pointmask tlist = set (concat (map tri_verts (surviving_tris pointmask tlist)))"

definition index_in_range :: "nat \<Rightarrow> int \<Rightarrow> bool" where
  "index_in_range n i = (0 \<le> i \<and> i < int n)"

definition tri_in_range :: "nat \<Rightarrow> int \<times> int \<times> int \<Rightarrow> bool" where
  "tri_in_range n t =
     (case t of (a, b, c) \<Rightarrow> index_in_range n a \<and> index_in_range n b \<and> index_in_range n c)"

text \<open>The field invariant of the data model: one row per point, one row per triangle.\<close>

definition field_invariant :: "('a, 't) trimesh \<Rightarrow> bool" where
  "field_invariant self =
     (list_all (\<lambda>nf. length (rows (snd nf)) = n_points self) (pointfields self) \<and>
      list_all (\<lambda>nf. length (rows (snd nf)) = n_tris self) (trifields self))"

text \<open>A dictionary has each key once.\<close>

definition dict_keys_distinct :: "('a, 't) trimesh \<Rightarrow> bool" where
  "dict_keys_distinct self =
     (distinct (map fst (pointfields self)) \<and> distinct (map fst (trifields self)))"

text \<open>The values of \<open>astype\<close> that the method accepts.\<close>

definition recognised_astype :: "pyobj \<Rightarrow> bool" where
  "recognised_astype astype =
     (astype = PyStr ''self'' \<or> (case astype of PyCls c \<Rightarrow> issubclass c TriMesh | _ \<Rightarrow> False))"

text \<open>Closed forms of the arrays that the extraction builds.\<close>

definition put_all :: "'a list \<Rightarrow> int list \<Rightarrow> 'a list \<Rightarrow> 'a list" where
  "put_all xs idx vals = fold (\<lambda>iv ys. ys[nat (fst iv) := snd iv]) (zip idx vals) xs"

definition rows_at :: "'a ndarray \<Rightarrow> int list \<Rightarrow> 'a ndarray" where
  "rows_at a idx = \<lparr>rows = map (\<lambda>i. rows a ! nat i) idx, inner = inner a\<rparr>"

definition rows_where :: "'a ndarray \<Rightarrow> bool list \<Rightarrow> 'a ndarray" where
  "rows_where a bmask = \<lparr>rows = map fst (filter snd (zip (rows a) bmask)), inner = inner a\<rparr>"

definition renumber :: "int list \<Rightarrow> int \<times> int \<times> int \<Rightarrow> int \<times> int \<times> int" where
  "renumber pi_map t =
     (case t of (a, b, c) \<Rightarrow>
        astype_uint32_tri (pi_map ! nat a, pi_map ! nat b, pi_map ! nat c))"

text \<open>The points, the renumbering and the triangles of the extracted mesh.\<close>

definition kept_points :: "bool list \<Rightarrow> ('a, 't) trimesh \<Rightarrow> int list" where
  "kept_points pointmask self = np_unique (surviving_tris pointmask (trilist self))"

definition new_points :: "bool list \<Rightarrow> ('a, 't) trimesh \<Rightarrow> 'a ndarray" where
  "new_points pointmask self = rows_at (points self) (kept_points pointmask self)"

definition new_pi_map :: "bool list \<Rightarrow> ('a, 't) trimesh \<Rightarrow> int list" where
  "new_pi_map pointmask self =
     put_all (replicate (n_points self) 0) (kept_points pointmask self)
       (np_arange (length (kept_points pointmask self)))"

definition new_trilist :: "bool list \<Rightarrow> ('a, 't) trimesh \<Rightarrow> (int \<times> int \<times> int) list" where
  "new_trilist pointmask self =
     map (renumber (new_pi_map pointmask self)) (surviving_tris pointmask (trilist self))"

text \<open>
  The field table that the loops of lines 116 to 119 build: each entry of the source
  table, re-sliced by \<open>g\<close>, is stored under its name.
\<close>

definition resliced ::
  "(string \<times> 'a ndarray) list \<Rightarrow> ('a ndarray \<Rightarrow> 'a ndarray) \<Rightarrow> (string \<times> 'a ndarray) list
     \<Rightarrow> (string \<times> 'a ndarray) list" where
  "resliced fs g acc = fold (\<lambda>nf. AList.update (fst nf) (g (snd nf))) fs acc"

text \<open>Every triangle index refers to a point, and every point belongs to a triangle.\<close>

definition tris_in_range :: "('a, 't) trimesh \<Rightarrow> bool" where
  "tris_in_range self = list_all (tri_in_range (n_points self)) (trilist self)"

definition every_point_used :: "('a, 't) trimesh \<Rightarrow> bool" where
  "every_point_used self =
     list_all (\<lambda>i. i \<in> set (concat (map tri_verts (trilist self)))) (np_arange (n_points self))"

text \<open>Example inputs: the mesh of scenario A with one field in each table.\<close>

definition example_mesh :: "(int, nat) trimesh" where
  "example_mesh =
     \<lparr>cls = TriMesh,
      points = \<lparr>rows = [[0, 0, 0], [1, 0, 0], [0, 1, 0], [5, 5, 5]], inner = [3]\<rparr>,
      pointfields = [(''color'', \<lparr>rows = [[1], [2], [3], [4]], inner = []\<rparr>)],
      trilist = [(0, 1, 2)],
      trifields = [(''area'', \<lparr>rows = [[7]], inner = []\<rparr>)],
      texture = Some 5\<rparr>"

text \<open>The same mesh without the point that no triangle uses.\<close>

definition compact_mesh :: "(int, nat) trimesh" where
  "compact_mesh =
     \<lparr>cls = TriMesh,
      points = \<lparr>rows = [[0, 0, 0], [1, 0, 0], [0, 1, 0]], inner = [3]\<rparr>,
      pointfields = [(''color'', \<lparr>rows = [[1], [2], [3]], inner = []\<rparr>)],
      trilist = [(0, 1, 2)],
      trifields = [(''area'', \<lparr>rows = [[7]], inner = []\<rparr>)],
      texture = Some 5\<rparr>"

text \<open>
  Example transforms and targets: a translation of an integer coordinate; a target whose
  \<open>_transform\<close> maps its coordinate and stores the result in the state; a target whose
  \<open>_transform\<close> raises AttributeError from inside its body; a raw target.
\<close>

definition shift_core :: "int \<Rightarrow> int \<Rightarrow> error + int" where
  "shift_core kwargs x = Inr (x + kwargs)"

definition storing_method :: "int \<Rightarrow> (int, int, int list) bound_method" where
  "storing_method x f s = (case f x of Inl e \<Rightarrow> (Inl e, s) | Inr y \<Rightarrow> (Inr y, y # s))"

definition storing_target :: "int \<Rightarrow> (int, int, int list) bound_method option" where
  "storing_target x = Some (storing_method x)"

definition broken_method :: "(int, int, int list) bound_method" where
  "broken_method f s = (Inl (AttributeError ''pts''), s)"

definition broken_target :: "int \<Rightarrow> (int, int, int list) bound_method option" where
  "broken_target x = Some broken_method"

definition raw_target :: "int \<Rightarrow> (int, int, int list) bound_method option" where
  "raw_target x = None"

section \<open>Lemmas about the array primitives\<close>

lemma bind_err_simps [simp]: "bind_err (Inl e) f = Inl e" "bind_err (Inr v) f = f v"
  by (simp_all add: bind_err_def)

lemma bind_err_Inr_iff: "bind_err r f = Inr y \<longleftrightarrow> (\<exists>v. r = Inr v \<and> f v = Inr y)"
  by (cases r) simp_all

lemma filter_zip_map: "map fst (filter snd (zip xs (map p xs))) = filter p xs"
  by (induction xs) auto

lemma bool_index_tris_mask:
  "bool_index tlist (tris_mask_of k tlist) = Inr (filter (\<lambda>t. np_all_axis1 (np_in1d k t)) tlist)"
  by (simp add: bool_index_def tris_mask_of_def filter_zip_map)

lemma selected_set:
  assumes "length pm = n"
  shows "i \<in> set (map fst (filter snd (zip (np_arange n) pm))) \<longleftrightarrow> mask_selected pm i"
proof
  assume "i \<in> set (map fst (filter snd (zip (np_arange n) pm)))"
  then obtain b where "(i, b) \<in> set (zip (np_arange n) pm)" and b: "b" by auto
  then obtain k where k: "k < n" "np_arange n ! k = i" "pm ! k = b"
    using assms by (auto simp: set_zip np_arange_def)
  then have "i = int k" by (simp add: np_arange_def)
  with k b assms show "mask_selected pm i" by (simp add: mask_selected_def)
next
  assume s: "mask_selected pm i"
  define k where "k = nat i"
  from s have k: "i = int k" "k < n" "pm ! k" using assms by (auto simp: mask_selected_def k_def)
  have "np_arange n ! k = i" using k by (simp add: np_arange_def)
  moreover have "k < length (np_arange n)" using k by (simp add: np_arange_def)
  ultimately have "(i, True) \<in> set (zip (np_arange n) pm)"
    using k assms unfolding in_set_zip by (intro exI[of _ k]) simp
  then show "i \<in> set (map fst (filter snd (zip (np_arange n) pm)))" by force
qed

lemma all_in1d_survives:
  assumes "length pm = n"
  shows "np_all_axis1 (np_in1d (map fst (filter snd (zip (np_arange n) pm))) t) = survives pm t"
  by (cases t) (simp add: np_all_axis1_def np_in1d_def survives_def selected_set[OF assms] del: set_map)

lemma tris_mask_survives:
  "length pm = n \<Longrightarrow>
   tris_mask_of (map fst (filter snd (zip (np_arange n) pm))) tlist = map (survives pm) tlist"
  by (simp add: tris_mask_of_def all_in1d_survives)

lemma set_np_unique: "set (np_unique ts) = set (concat (map tri_verts ts))"
  by (simp add: np_unique_def)

lemma sorted_np_unique: "sorted (np_unique ts)"
  by (simp add: np_unique_def)

lemma distinct_np_unique: "distinct (np_unique ts)"
  by (simp add: np_unique_def)

lemma take_rows_in_range:
  "list_all (index_in_range (length xs)) idx \<Longrightarrow> take_rows xs idx = Inr (map (\<lambda>i. xs ! nat i) idx)"
  by (induction idx) (auto simp: int_index_def index_in_range_def)

lemma take_tris_in_range:
  "list_all (tri_in_range (length xs)) ts \<Longrightarrow>
   take_tris xs ts = Inr (map (\<lambda>t. case t of (a, b, c) \<Rightarrow> (xs ! nat a, xs ! nat b, xs ! nat c)) ts)"
  by (induction ts) (auto simp: take_tri_def int_index_def index_in_range_def tri_in_range_def)

lemma length_put_all [simp]: "length (put_all xs idx vals) = length xs"
  unfolding put_all_def
  by (induction idx arbitrary: xs vals) (auto split: list.splits simp: zip_Cons1)

lemma put_rows_in_range:
  "length idx = length vals \<Longrightarrow> list_all (index_in_range (length xs)) idx \<Longrightarrow>
   put_rows xs idx vals = Inr (put_all xs idx vals)"
proof (induction xs idx vals rule: put_rows.induct)
  case (1 xs)
  then show ?case by (simp add: put_all_def)
next
  case (2 xs i idx v vals)
  then show ?case by (auto simp: put_all_def index_in_range_def Let_def)
qed auto

lemma put_all_Cons:
  "put_all xs (i # idx) (v # vals) = put_all (xs[nat i := v]) idx vals"
  by (simp add: put_all_def)

lemma put_all_untouched:
  "length idx = length vals \<Longrightarrow> list_all (\<lambda>i. 0 \<le> i) idx \<Longrightarrow> 0 \<le> a \<Longrightarrow> a \<notin> set idx \<Longrightarrow>
   put_all xs idx vals ! nat a = xs ! nat a"
proof (induction idx arbitrary: vals xs)
  case Nil
  then show ?case by (simp add: put_all_def)
next
  case (Cons i idx)
  then obtain w ws where vals: "vals = w # ws" by (cases vals) auto
  have ne: "nat i \<noteq> nat a" using Cons.prems by auto
  have "put_all (xs[nat i := w]) idx ws ! nat a = (xs[nat i := w]) ! nat a"
    using Cons.prems vals by (intro Cons.IH) auto
  then show ?case using vals ne by (simp add: put_all_Cons)
qed

lemma put_all_nth:
  "length idx = length vals \<Longrightarrow> distinct idx \<Longrightarrow> list_all (index_in_range (length xs)) idx \<Longrightarrow>
   j < length idx \<Longrightarrow> put_all xs idx vals ! nat (idx ! j) = vals ! j"
proof (induction idx arbitrary: vals xs j)
  case Nil
  then show ?case by simp
next
  case (Cons i idx)
  then obtain w ws where vals: "vals = w # ws" by (cases vals) auto
  have rng: "list_all (index_in_range (length (xs[nat i := w]))) idx"
    using Cons.prems by simp
  show ?case
  proof (cases j)
    case 0
    have nonneg: "list_all (\<lambda>i. 0 \<le> i) idx"
      using Cons.prems(3) by (auto simp: list_all_iff index_in_range_def)
    have "put_all (xs[nat i := w]) idx ws ! nat i = (xs[nat i := w]) ! nat i"
      using Cons.prems vals nonneg by (intro put_all_untouched) (auto simp: index_in_range_def)
    moreover have "nat i < length xs"
      using Cons.prems(3) by (auto simp: index_in_range_def)
    ultimately show ?thesis using 0 vals by (simp add: put_all_Cons)
  next
    case (Suc k)
    have "put_all (xs[nat i := w]) idx ws ! nat (idx ! k) = ws ! k"
      using Cons.prems vals Suc rng by (intro Cons.IH) auto
    then show ?thesis using Suc vals by (simp add: put_all_Cons)
  qed
qed

lemma mask_selected_in_range: "mask_selected pm i \<Longrightarrow> index_in_range (length pm) i"
  by (auto simp: mask_selected_def index_in_range_def)

lemma surviving_in_range: "list_all (tri_in_range (length pm)) (surviving_tris pm tlist)"
  by (auto simp: list_all_iff surviving_tris_def survives_def tri_in_range_def
      intro: mask_selected_in_range)

lemma np_unique_in_range:
  "list_all (tri_in_range n) ts \<Longrightarrow> list_all (index_in_range n) (np_unique ts)"
  by (auto simp: list_all_iff set_np_unique tri_in_range_def tri_verts_def)

lemma kept_points_in_range:
  "length pm = n_points self \<Longrightarrow> list_all (index_in_range (n_points self)) (kept_points pm self)"
  unfolding kept_points_def
  by (metis np_unique_in_range surviving_in_range)

lemma trimesh_from_pointmask_bad_mask:
  "length pm \<noteq> n_points self \<Longrightarrow> trimesh_from_pointmask pm astype self = Inl IndexError"
  by (simp add: trimesh_from_pointmask_def bool_index_def np_arange_def)

lemma trimesh_from_pointmask_unfold:
  assumes len: "length pm = n_points self"
  shows "trimesh_from_pointmask pm astype self =
     bind_err (resolve_astype (cls self) astype) (\<lambda>c.
     bind_err (transfer_pointfields (pointfields self) (kept_points pm self)
                 (TriMesh_init c (new_points pm self) (new_trilist pm self))) (\<lambda>nm1.
     bind_err (transfer_trifields (trifields self) (map (survives pm) (trilist self)) nm1) (\<lambda>nm2.
     Inr (nm2\<lparr>texture := texture self\<rparr>))))"
proof -
  let ?k0 = "map fst (filter snd (zip (np_arange (n_points self)) pm))"
  have s1: "bool_index (np_arange (n_points self)) pm = Inr ?k0"
    using len by (simp add: bool_index_def np_arange_def)
  have s2: "tris_mask_of ?k0 (trilist self) = map (survives pm) (trilist self)"
    using len by (rule tris_mask_survives)
  have s3: "bool_index (trilist self) (map (survives pm) (trilist self))
            = Inr (surviving_tris pm (trilist self))"
    by (simp add: bool_index_def filter_zip_map surviving_tris_def)
  have rng: "list_all (index_in_range (n_points self)) (kept_points pm self)"
    using len by (rule kept_points_in_range)
  have s4: "take_rows (rows (points self)) (kept_points pm self) = Inr (rows (new_points pm self))"
    using rng by (simp add: take_rows_in_range n_points_def new_points_def rows_at_def)
  have s5: "put_rows (replicate (n_points self) 0) (kept_points pm self)
              (np_arange (length (kept_points pm self))) = Inr (new_pi_map pm self)"
    unfolding new_pi_map_def using rng by (intro put_rows_in_range) (simp_all add: np_arange_def)
  have "list_all (tri_in_range (length (new_pi_map pm self))) (surviving_tris pm (trilist self))"
    using surviving_in_range[of pm "trilist self"] len by (simp add: new_pi_map_def)
  then have s6: "take_tris (new_pi_map pm self) (surviving_tris pm (trilist self))
      = Inr (map (\<lambda>t. case t of (a, b, c) \<Rightarrow> (new_pi_map pm self ! nat a, new_pi_map pm self ! nat b, new_pi_map pm self ! nat c))
             (surviving_tris pm (trilist self)))"
    by (rule take_tris_in_range)
  have s7: "map astype_uint32_tri (map (\<lambda>t. case t of (a, b, c) \<Rightarrow> (new_pi_map pm self ! nat a, new_pi_map pm self ! nat b, new_pi_map pm self ! nat c))
             (surviving_tris pm (trilist self))) = new_trilist pm self"
    by (simp add: new_trilist_def renumber_def split_def)
  have s8: "\<lparr>rows = rows (new_points pm self), inner = inner (points self)\<rparr> = new_points pm self"
    by (simp add: new_points_def rows_at_def)
  show ?thesis
    unfolding trimesh_from_pointmask_def Let_def s1 bind_err_simps s2 s3
    unfolding kept_points_def[symmetric] s4 bind_err_simps s5 s6 s7 s8
    by (rule refl)
qed

lemma sublist_field_size_msg:
  "sublist (repr_nat supplied) (field_size_msg per supplied required)"
  "sublist (repr_nat required) (field_size_msg per supplied required)"
  unfolding field_size_msg_def sublist_def
  by (metis append.assoc)+

lemma texture_add_trifield [simp]: "texture (snd (add_trifield n f m)) = texture m"
  by (simp add: add_trifield_def)

lemma texture_add_pointfield [simp]: "texture (snd (add_pointfield n f m)) = texture m"
  by (simp add: add_pointfield_def)

section \<open>Lemmas about the extraction\<close>

lemma resliced_Nil [simp]: "resliced [] g acc = acc"
  by (simp add: resliced_def)

lemma resliced_Cons [simp]:
  "resliced (nf # fs) g acc = resliced fs g (AList.update (fst nf) (g (snd nf)) acc)"
  by (simp add: resliced_def)

lemma update_fresh: "k \<notin> fst ` set al \<Longrightarrow> AList.update k v al = al @ [(k, v)]"
  by (induction al) auto

lemma resliced_distinct:
  "distinct (map fst fs) \<Longrightarrow> fst ` set acc \<inter> fst ` set fs = {} \<Longrightarrow>
   resliced fs g acc = acc @ map (\<lambda>nf. (fst nf, g (snd nf))) fs"
proof (induction fs arbitrary: acc)
  case Nil
  then show ?case by simp
next
  case (Cons nf fs)
  have fresh: "fst nf \<notin> fst ` set acc" using Cons.prems(2) by auto
  have "resliced fs g (acc @ [(fst nf, g (snd nf))])
        = (acc @ [(fst nf, g (snd nf))]) @ map (\<lambda>nf. (fst nf, g (snd nf))) fs"
    using Cons.prems by (intro Cons.IH) auto
  then show ?case using fresh by (simp add: update_fresh)
qed

lemma update_values:
  "list_all (\<lambda>nf. P (snd nf)) al \<Longrightarrow> P v \<Longrightarrow> list_all (\<lambda>nf. P (snd nf)) (AList.update k v al)"
  by (induction al) auto

lemma resliced_values:
  "list_all (\<lambda>nf. P (snd nf)) acc \<Longrightarrow> list_all (\<lambda>nf. P (g (snd nf))) fs \<Longrightarrow>
   list_all (\<lambda>nf. P (snd nf)) (resliced fs g acc)"
  by (induction fs arbitrary: acc) (auto intro: update_values)

lemma resliced_keys: "fst ` set (resliced fs g acc) = fst ` set acc \<union> fst ` set fs"
  by (induction fs arbitrary: acc) (auto simp: dom_update)

lemma length_filter_zip:
  "length rs = length bm \<Longrightarrow> length (filter snd (zip rs bm)) = length (filter (\<lambda>b. b) bm)"
  by (induction rs bm rule: list_induct2) auto

lemma transfer_pointfields_ok:
  "n_points nm = length ks \<Longrightarrow>
   list_all (\<lambda>nf. list_all (index_in_range (length (rows (snd nf)))) ks) fs \<Longrightarrow>
   transfer_pointfields fs ks nm
     = Inr (nm\<lparr>pointfields := resliced fs (\<lambda>f. rows_at f ks) (pointfields nm)\<rparr>)"
proof (induction fs arbitrary: nm)
  case Nil
  then show ?case by simp
next
  case (Cons nf fs)
  obtain name field where nf: "nf = (name, field)" by (cases nf)
  have tk: "take_rows (rows field) ks = Inr (rows (rows_at field ks))"
    using Cons.prems(2) nf by (simp add: take_rows_in_range rows_at_def)
  have eq: "\<lparr>rows = rows (rows_at field ks), inner = inner field\<rparr> = rows_at field ks"
    by (simp add: rows_at_def)
  let ?nm = "nm\<lparr>pointfields := AList.update name (rows_at field ks) (pointfields nm)\<rparr>"
  have ad: "add_pointfield name (rows_at field ks) nm = (None, ?nm)"
    using Cons.prems(1) by (simp add: add_pointfield_def rows_at_def)
  have "transfer_pointfields fs ks ?nm
        = Inr (?nm\<lparr>pointfields := resliced fs (\<lambda>f. rows_at f ks) (pointfields ?nm)\<rparr>)"
    using Cons.prems by (intro Cons.IH) (simp_all add: n_points_def)
  then show ?case by (simp add: nf tk eq ad)
qed

lemma transfer_trifields_ok:
  "n_tris nm = length (filter (\<lambda>b. b) bm) \<Longrightarrow>
   list_all (\<lambda>nf. length (rows (snd nf)) = length bm) fs \<Longrightarrow>
   transfer_trifields fs bm nm
     = Inr (nm\<lparr>trifields := resliced fs (\<lambda>f. rows_where f bm) (trifields nm)\<rparr>)"
proof (induction fs arbitrary: nm)
  case Nil
  then show ?case by simp
next
  case (Cons nf fs)
  obtain name field where nf: "nf = (name, field)" by (cases nf)
  have len: "length (rows field) = length bm" using Cons.prems(2) nf by simp
  have tk: "bool_index (rows field) bm = Inr (rows (rows_where field bm))"
    using len by (simp add: bool_index_def rows_where_def)
  have eq: "\<lparr>rows = rows (rows_where field bm), inner = inner field\<rparr> = rows_where field bm"
    by (simp add: rows_where_def)
  let ?nm = "nm\<lparr>trifields := AList.update name (rows_where field bm) (trifields nm)\<rparr>"
  have "length (rows (rows_where field bm)) = n_tris nm"
    using Cons.prems(1) len by (simp add: rows_where_def length_filter_zip)
  then have ad: "add_trifield name (rows_where field bm) nm = (None, ?nm)"
    by (simp add: add_trifield_def)
  have "transfer_trifields fs bm ?nm
        = Inr (?nm\<lparr>trifields := resliced fs (\<lambda>f. rows_where f bm) (trifields ?nm)\<rparr>)"
    using Cons.prems by (intro Cons.IH) (simp_all add: n_tris_def)
  then show ?case by (simp add: nf tk eq ad)
qed

lemma transfer_pointfields_frame:
  "transfer_pointfields fs ks nm = Inr nm' \<Longrightarrow>
   cls nm' = cls nm \<and> points nm' = points nm \<and> trilist nm' = trilist nm
   \<and> trifields nm' = trifields nm \<and> texture nm' = texture nm"
proof (induction fs arbitrary: nm)
  case Nil
  then show ?case by simp
next
  case (Cons nf fs)
  obtain name field where nf: "nf = (name, field)" by (cases nf)
  from Cons.prems obtain rs where
    r: "transfer_pointfields fs ks
          (nm\<lparr>pointfields := AList.update name \<lparr>rows = rs, inner = inner field\<rparr> (pointfields nm)\<rparr>)
        = Inr nm'"
    by (auto simp: nf add_pointfield_def split: sum.splits if_splits)
  from Cons.IH[OF r] show ?case by simp
qed

lemma transfer_trifields_frame:
  "transfer_trifields fs bm nm = Inr nm' \<Longrightarrow>
   cls nm' = cls nm \<and> points nm' = points nm \<and> trilist nm' = trilist nm
   \<and> pointfields nm' = pointfields nm \<and> texture nm' = texture nm"
proof (induction fs arbitrary: nm)
  case Nil
  then show ?case by simp
next
  case (Cons nf fs)
  obtain name field where nf: "nf = (name, field)" by (cases nf)
  from Cons.prems obtain rs where
    r: "transfer_trifields fs bm
          (nm\<lparr>trifields := AList.update name \<lparr>rows = rs, inner = inner field\<rparr> (trifields nm)\<rparr>)
        = Inr nm'"
    by (auto simp: nf add_trifield_def split: sum.splits if_splits)
  from Cons.IH[OF r] show ?case by simp
qed

lemma trimesh_from_pointmask_Inr_D:
  assumes "trimesh_from_pointmask pm astype self = Inr m'"
  shows "length pm = n_points self \<and> resolve_astype (cls self) astype = Inr (cls m')
         \<and> points m' = new_points pm self \<and> trilist m' = new_trilist pm self
         \<and> texture m' = texture self"
proof -
  have len: "length pm = n_points self"
    using assms trimesh_from_pointmask_bad_mask[of pm self astype] by (cases "length pm = n_points self") auto
  from assms obtain c nm1 nm2 where
    c: "resolve_astype (cls self) astype = Inr c" and
    p: "transfer_pointfields (pointfields self) (kept_points pm self)
          (TriMesh_init c (new_points pm self) (new_trilist pm self)) = Inr nm1" and
    t: "transfer_trifields (trifields self) (map (survives pm) (trilist self)) nm1 = Inr nm2" and
    m: "m' = nm2\<lparr>texture := texture self\<rparr>"
    unfolding trimesh_from_pointmask_unfold[OF len] bind_err_Inr_iff by auto
  from transfer_pointfields_frame[OF p] transfer_trifields_frame[OF t] m c len
  show ?thesis by (simp add: TriMesh_init_def)
qed

lemma trimesh_from_pointmask_returns:
  assumes len: "length pm = n_points self"
    and inv: "field_invariant self"
    and c: "resolve_astype (cls self) astype = Inr c"
  shows "trimesh_from_pointmask pm astype self =
     Inr \<lparr>cls = c, points = new_points pm self,
          pointfields = resliced (pointfields self) (\<lambda>f. rows_at f (kept_points pm self)) [],
          trilist = new_trilist pm self,
          trifields = resliced (trifields self)
                        (\<lambda>f. rows_where f (map (survives pm) (trilist self))) [],
          texture = texture self\<rparr>"
proof -
  let ?nm = "TriMesh_init c (new_points pm self) (new_trilist pm self) :: ('a, 'b) trimesh"
  have rng: "list_all (index_in_range (n_points self)) (kept_points pm self)"
    using len by (rule kept_points_in_range)
  have "list_all (\<lambda>nf. list_all (index_in_range (length (rows (snd nf)))) (kept_points pm self))
          (pointfields self)"
    using inv rng by (auto simp: field_invariant_def list_all_iff)
  moreover have "n_points ?nm = length (kept_points pm self)"
    by (simp add: n_points_def TriMesh_init_def new_points_def rows_at_def)
  ultimately have p: "transfer_pointfields (pointfields self) (kept_points pm self) ?nm
      = Inr (?nm\<lparr>pointfields := resliced (pointfields self) (\<lambda>f. rows_at f (kept_points pm self))
                                   (pointfields ?nm)\<rparr>)"
    by (intro transfer_pointfields_ok)
  let ?nm1 = "?nm\<lparr>pointfields := resliced (pointfields self) (\<lambda>f. rows_at f (kept_points pm self))
                                   (pointfields ?nm)\<rparr>"
  have "n_tris ?nm1 = length (filter (\<lambda>b. b) (map (survives pm) (trilist self)))"
    by (simp add: n_tris_def TriMesh_init_def new_trilist_def surviving_tris_def filter_map comp_def)
  moreover have "list_all (\<lambda>nf. length (rows (snd nf)) = length (map (survives pm) (trilist self)))
          (trifields self)"
    using inv by (simp add: field_invariant_def n_tris_def)
  ultimately have t: "transfer_trifields (trifields self) (map (survives pm) (trilist self)) ?nm1
      = Inr (?nm1\<lparr>trifields := resliced (trifields self)
               (\<lambda>f. rows_where f (map (survives pm) (trilist self))) (trifields ?nm1)\<rparr>)"
    by (intro transfer_trifields_ok)
  show ?thesis
    unfolding trimesh_from_pointmask_unfold[OF len] c bind_err_simps p t
    by (simp add: TriMesh_init_def)
qed

lemma resolve_astype_recognised:
  "recognised_astype astype \<Longrightarrow> \<exists>c. resolve_astype self_cls astype = Inr c"
  by (auto simp: recognised_astype_def resolve_astype_def split: pyobj.splits)

text \<open>
  The field invariant holds of a new mesh and is kept by every method that changes a field
  table or the texture.
\<close>

lemma field_invariant_init: "field_invariant (TriMesh_init c pts tlist)"
  by (simp add: field_invariant_def TriMesh_init_def)

lemma field_invariant_add_pointfield:
  assumes "field_invariant self"
  shows "field_invariant (snd (add_pointfield name field self))"
proof (cases "length (rows field) = n_points self")
  case True
  have "list_all (\<lambda>nf. length (rows (snd nf)) = n_points self)
          (AList.update name field (pointfields self))"
    using assms True by (intro update_values) (simp_all add: field_invariant_def)
  then show ?thesis
    using assms True by (simp add: add_pointfield_def field_invariant_def n_points_def n_tris_def)
next
  case False
  then show ?thesis using assms by (simp add: add_pointfield_def)
qed

lemma field_invariant_add_trifield:
  assumes "field_invariant self"
  shows "field_invariant (snd (add_trifield name field self))"
proof (cases "length (rows field) = n_tris self")
  case True
  have "list_all (\<lambda>nf. length (rows (snd nf)) = n_tris self)
          (AList.update name field (trifields self))"
    using assms True by (intro update_values) (simp_all add: field_invariant_def)
  then show ?thesis
    using assms True by (simp add: add_trifield_def field_invariant_def n_points_def n_tris_def)
next
  case False
  then show ?thesis using assms by (simp add: add_trifield_def)
qed

lemma field_invariant_texture:
  "field_invariant (self\<lparr>texture := tex\<rparr>) = field_invariant self"
  by (simp add: field_invariant_def n_points_def n_tris_def)

lemma field_invariant_attach_texture:
  assumes "field_invariant self"
  shows "field_invariant (snd (attach_texture tex tcoords tcoords_trilist self))"
proof -
  have i: "field_invariant (self\<lparr>texture := tex\<rparr>)"
    using assms by (simp add: field_invariant_texture)
  show ?thesis
    unfolding attach_texture_def Let_def
    using i field_invariant_add_pointfield[OF i] field_invariant_add_trifield[OF i]
    by (simp split: option.splits sum.splits)
qed

section \<open>Field tables and texture attachment\<close>

text \<open>
  Claim C4.  For a mesh with T triangles, \<open>add_trifield\<close> called with an array whose
  leading dimension is not T raises TriFieldError (the field dimension error of the
  triangle table), its message contains the decimal form of the supplied size and of the
  required size, and the mesh is left as it was.  When the leading dimension is T, the
  call returns normally, the triangle table maps the name to the array (inserting or
  overwriting it) and nothing else of the mesh changes.
\<close>

theorem add_trifield_checks_leading_dimension:
  "(length (rows field) \<noteq> n_tris self \<longrightarrow>
      add_trifield name field self =
        (Some (TriFieldError (field_size_msg ''tri'' (length (rows field)) (n_tris self))), self)
      \<and> sublist (repr_nat (length (rows field)))
           (field_size_msg ''tri'' (length (rows field)) (n_tris self))
      \<and> sublist (repr_nat (n_tris self))
           (field_size_msg ''tri'' (length (rows field)) (n_tris self)))
   \<and> (length (rows field) = n_tris self \<longrightarrow>
      fst (add_trifield name field self) = None
      \<and> map_of (trifields (snd (add_trifield name field self)))
          = (map_of (trifields self))(name \<mapsto> field)
      \<and> snd (add_trifield name field self)
          = self\<lparr>trifields := trifields (snd (add_trifield name field self))\<rparr>)"
  by (simp add: add_trifield_def sublist_field_size_msg update_conv')

theorem add_trifield_checks_leading_dimension_witness:
  "add_trifield ''normals'' \<lparr>rows = [[1], [2]], inner = []\<rparr> example_mesh =
     (Some (TriFieldError
        ''Trying to add a field with 2 values (need one field value per tri => 1 values required''),
      example_mesh)
   \<and> map_of (trifields (snd (add_trifield ''area'' \<lparr>rows = [[9]], inner = []\<rparr> example_mesh)))
         ''area''
       = Some \<lparr>rows = [[9]], inner = []\<rparr>"
  using add_trifield_checks_leading_dimension
          [of "\<lparr>rows = [[1], [2]], inner = []\<rparr>" example_mesh "''normals''"]
    add_trifield_checks_leading_dimension
          [of "\<lparr>rows = [[9::int]], inner = []\<rparr>" example_mesh "''area''"]
  by (simp add: example_mesh_def n_tris_def field_size_msg_def repr_nat.simps)

text \<open>
  Claim C5.  The claim asks for a texture-coordinate-shape error when \<open>attach_texture\<close>
  is called without a texture-private triangle index and the coordinate array has neither
  shape (N, 2) nor shape (T, 3, 2).  The source reaches the \<open>raise TextureError(...)\<close>
  of the last branch, but the module never binds the name \<open>TextureError\<close>, so the
  exception that escapes is NameError.  The field tables are left as they were: the only
  change to the mesh is the texture handle.
\<close>

theorem attach_texture_unrecognised_shape_raises_NameError:
  "shape tcoords \<noteq> [n_points self, 2] \<Longrightarrow> shape tcoords \<noteq> [n_tris self, 3, 2] \<Longrightarrow>
   attach_texture tex tcoords None self
     = (Some (NameError ''TextureError''), self\<lparr>texture := tex\<rparr>)"
  by (simp add: attach_texture_def n_points_def n_tris_def)

theorem attach_texture_unrecognised_shape_raises_NameError_witness:
  "attach_texture (Some 3) \<lparr>rows = [[1, 2], [1, 2], [3, 4]], inner = [2]\<rparr> None example_mesh
     = (Some (NameError ''TextureError''), example_mesh\<lparr>texture := Some 3\<rparr>)"
  using attach_texture_unrecognised_shape_raises_NameError
          [of "\<lparr>rows = [[1, 2], [1, 2], [3, 4]], inner = [2]\<rparr>" example_mesh "Some 3"]
  by (simp add: shape_def n_points_def n_tris_def example_mesh_def)

text \<open>
  Claim C6.  Whatever branch \<open>attach_texture\<close> takes, and whether it returns or raises,
  the texture attribute of the mesh is the texture handle that was passed.
\<close>

theorem attach_texture_stores_texture:
  "texture (snd (attach_texture tex tcoords tcoords_trilist self)) = tex"
  by (simp add: attach_texture_def Let_def split: option.splits sum.splits)

theorem attach_texture_stores_texture_witness:
  "texture (snd (attach_texture (Some 3) \<lparr>rows = [[1, 2], [1, 2], [3, 4]], inner = [2]\<rparr>
                   None example_mesh)) = Some 3"
  using attach_texture_stores_texture
          [of "Some 3" "\<lparr>rows = [[1, 2], [1, 2], [3, 4]], inner = [2]\<rparr>" None example_mesh]
  by simp

section \<open>The transform protocol\<close>

text \<open>
  Claim C9.  The closure built by \<open>Transform.apply\<close> maps a raw array to the result of
  \<open>_apply\<close> on it with the keyword arguments of the call.  When the target has a
  \<open>_transform\<close> method, the method is run with exactly this closure: the state after
  \<open>apply\<close> is the state that the method leaves when called with the closure.  When the
  target has no such method, \<open>apply\<close> returns the result of \<open>_apply\<close> on the target
  itself and changes nothing.
\<close>

theorem Transform_apply_dispatch:
  "(\<forall>a. transform apply_core kwargs a = apply_core kwargs a)
   \<and> (get_transform x = Some meth \<longrightarrow>
        snd (Transform_apply apply_core get_transform x kwargs s)
          = snd (meth (transform apply_core kwargs) s))
   \<and> (get_transform x = None \<longrightarrow>
        Transform_apply apply_core get_transform x kwargs s
          = (map_sum id Some (apply_core kwargs x), s))"
  by (auto simp: Transform_apply_def transform_def split: prod.splits sum.splits error.splits)

theorem Transform_apply_dispatch_witness:
  "snd (Transform_apply shift_core storing_target 5 2 []) = [7]
   \<and> Transform_apply shift_core raw_target 5 2 [] = (Inr (Some 7), [])"
  using Transform_apply_dispatch [of shift_core 2 storing_target 5 "storing_method 5" "[]"]
    Transform_apply_dispatch [of shift_core 2 raw_target 5 "storing_method 5" "[]"]
  by (simp add: storing_target_def raw_target_def storing_method_def shift_core_def)

text \<open>
  Claim C10.  As stated (\<open>apply\<close> returns None for every target that has a \<open>_transform\<close>
  method) the claim fails: the \<open>except AttributeError\<close> clause also catches an
  AttributeError raised inside the method, and \<open>apply\<close> then returns the result of
  \<open>_apply\<close> on the target.
\<close>

theorem Transform_apply_returns_None_counterexample:
  "broken_target 5 = Some broken_method
   \<and> Transform_apply shift_core broken_target 5 2 [] = (Inr (Some 7), [])"
  by (simp add: Transform_apply_def broken_target_def broken_method_def shift_core_def)

text \<open>
  Claim C10, amended.  For every target that has a \<open>_transform\<close> method, when the call of
  the method with the closure returns a value, \<open>apply\<close> returns None: the value is
  discarded, and the state is the one the method left.
\<close>

theorem Transform_apply_discards_result:
  "get_transform x = Some meth \<Longrightarrow> meth (transform apply_core kwargs) s = (Inr v, s') \<Longrightarrow>
   Transform_apply apply_core get_transform x kwargs s = (Inr None, s')"
  by (simp add: Transform_apply_def)

theorem Transform_apply_discards_result_witness:
  "Transform_apply shift_core storing_target 5 2 [] = (Inr None, [7])"
  using Transform_apply_discards_result
          [of storing_target 5 "storing_method 5" shift_core 2 "[]" 7 "[7]"]
  by (simp add: storing_target_def storing_method_def shift_core_def transform_def)

text \<open>
  The other two outcomes of the call of \<open>_transform\<close>: an AttributeError raised inside it
  is caught and \<open>_apply\<close> runs on the target; any other exception escapes.
\<close>

lemma Transform_apply_AttributeError_inside:
  "get_transform x = Some meth \<Longrightarrow>
   meth (transform apply_core kwargs) s = (Inl (AttributeError msg), s') \<Longrightarrow>
   Transform_apply apply_core get_transform x kwargs s
     = (map_sum id Some (apply_core kwargs x), s')"
  by (simp add: Transform_apply_def)

lemma Transform_apply_other_error:
  "get_transform x = Some meth \<Longrightarrow> meth (transform apply_core kwargs) s = (Inl e, s') \<Longrightarrow>
   (\<forall>msg. e \<noteq> AttributeError msg) \<Longrightarrow>
   Transform_apply apply_core get_transform x kwargs s = (Inl e, s')"
  by (cases e) (simp_all add: Transform_apply_def)

section \<open>Sub-mesh extraction\<close>

lemma used_points_iff:
  "i \<in> used_points pm tlist \<longleftrightarrow> (\<exists>t \<in> set tlist. survives pm t \<and> i \<in> set (tri_verts t))"
  by (auto simp: used_points_def surviving_tris_def)

lemma set_kept_points: "set (kept_points pm self) = used_points pm (trilist self)"
  by (simp add: kept_points_def used_points_def set_np_unique)

lemma trimesh_from_pointmask_total:
  "length pm = n_points self \<Longrightarrow> field_invariant self \<Longrightarrow> recognised_astype astype \<Longrightarrow>
   \<exists>m'. trimesh_from_pointmask pm astype self = Inr m'"
  using resolve_astype_recognised[of astype "cls self"] trimesh_from_pointmask_returns[of pm self astype]
  by auto

lemma n_points_new: 
  "points m' = new_points pm self \<Longrightarrow> n_points m' = length (kept_points pm self)"
  by (simp add: n_points_def new_points_def rows_at_def)

lemma astype_uint32_bounds: "0 \<le> x \<Longrightarrow> 0 \<le> astype_uint32 x \<and> astype_uint32 x \<le> x"
  by (simp add: astype_uint32_def zmod_le_nonneg_dividend)

lemma new_pi_map_at:
  assumes len: "length pm = n_points self" and a: "a \<in> set (kept_points pm self)"
  shows "\<exists>j < length (kept_points pm self). kept_points pm self ! j = a \<and> new_pi_map pm self ! nat a = int j"
proof -
  from a obtain j where j: "j < length (kept_points pm self)" "kept_points pm self ! j = a"
    by (auto simp: in_set_conv_nth)
  have "put_all (replicate (n_points self) 0) (kept_points pm self)
          (np_arange (length (kept_points pm self))) ! nat (kept_points pm self ! j)
        = np_arange (length (kept_points pm self)) ! j"
    using j(1) kept_points_in_range[OF len]
    by (intro put_all_nth) (simp_all add: np_arange_def kept_points_def distinct_np_unique)
  then have "new_pi_map pm self ! nat a = int j"
    using j by (simp add: new_pi_map_def np_arange_def)
  with j show ?thesis by blast
qed

lemma new_index_in_range:
  assumes len: "length pm = n_points self" and a: "a \<in> set (kept_points pm self)"
  shows "index_in_range (length (kept_points pm self)) (astype_uint32 (new_pi_map pm self ! nat a))"
proof -
  from new_pi_map_at[OF len a] obtain j where
    j: "j < length (kept_points pm self)" "new_pi_map pm self ! nat a = int j" by blast
  from astype_uint32_bounds[of "int j"] j show ?thesis
    by (simp add: index_in_range_def)
qed

lemma new_trilist_in_range:
  assumes len: "length pm = n_points self"
  shows "list_all (tri_in_range (length (kept_points pm self))) (new_trilist pm self)"
proof -
  have "tri_in_range (length (kept_points pm self)) (renumber (new_pi_map pm self) t)"
    if t: "t \<in> set (surviving_tris pm (trilist self))" for t
  proof -
    obtain a b c where abc: "t = (a, b, c)" by (cases t)
    have "set (tri_verts t) \<subseteq> set (kept_points pm self)"
      using t by (auto simp: kept_points_def set_np_unique)
    then have "a \<in> set (kept_points pm self)" "b \<in> set (kept_points pm self)"
      "c \<in> set (kept_points pm self)" by (simp_all add: abc tri_verts_def)
    then show ?thesis
      using new_index_in_range[OF len]
      by (simp add: abc renumber_def astype_uint32_tri_def tri_in_range_def)
  qed
  then show ?thesis by (simp add: new_trilist_def list_all_iff)
qed

lemma sublist_mesh_type_msg: "sublist (repr_cls c) (mesh_type_msg c)"
  unfolding mesh_type_msg_def sublist_def by (metis append.assoc)

text \<open>
  Claim C2.  Whenever \<open>trimesh_from_pointmask\<close> returns a mesh, its point array holds
  exactly the original points used by at least one surviving triangle, once each and in
  their original order: the rows are those of the source at the indices \<open>kept_points\<close>,
  a sorted list without repetition whose set is the set of vertices of the triangles that
  have all three vertices selected by the mask.  A selected point all of whose triangles
  were dropped is therefore not among them.  For a mask of length N on a mesh that
  satisfies the field invariant, with an accepted \<open>astype\<close>, the method does return.
\<close>

theorem extracted_points_are_used_points:
  "(\<forall>m'. trimesh_from_pointmask pm astype self = Inr m' \<longrightarrow>
        rows (points m') = map (\<lambda>i. rows (points self) ! nat i) (kept_points pm self)
      \<and> n_points m' = card (used_points pm (trilist self)))
   \<and> set (kept_points pm self) = used_points pm (trilist self)
   \<and> distinct (kept_points pm self) \<and> sorted (kept_points pm self)
   \<and> (\<forall>i. i \<in> used_points pm (trilist self) \<longleftrightarrow>
          (\<exists>t \<in> set (trilist self). survives pm t \<and> i \<in> set (tri_verts t)))
   \<and> (length pm = n_points self \<and> field_invariant self \<and> recognised_astype astype \<longrightarrow>
        (\<exists>m'. trimesh_from_pointmask pm astype self = Inr m'
            \<and> list_all (index_in_range (n_points self)) (kept_points pm self)))"
proof -
  have d: "distinct (kept_points pm self)" and s: "sorted (kept_points pm self)"
    by (simp_all add: kept_points_def distinct_np_unique sorted_np_unique)
  have card: "card (used_points pm (trilist self)) = length (kept_points pm self)"
    using distinct_card[OF d] by (simp add: set_kept_points)
  have a: "\<forall>m'. trimesh_from_pointmask pm astype self = Inr m' \<longrightarrow>
        rows (points m') = map (\<lambda>i. rows (points self) ! nat i) (kept_points pm self)
      \<and> n_points m' = card (used_points pm (trilist self))"
  proof (intro allI impI)
    fix m' assume "trimesh_from_pointmask pm astype self = Inr m'"
    from trimesh_from_pointmask_Inr_D[OF this] have "points m' = new_points pm self" by simp
    then show "rows (points m') = map (\<lambda>i. rows (points self) ! nat i) (kept_points pm self)
      \<and> n_points m' = card (used_points pm (trilist self))"
      by (simp add: card n_points_new) (simp add: new_points_def rows_at_def)
  qed
  have t: "length pm = n_points self \<and> field_invariant self \<and> recognised_astype astype \<longrightarrow>
        (\<exists>m'. trimesh_from_pointmask pm astype self = Inr m'
            \<and> list_all (index_in_range (n_points self)) (kept_points pm self))"
    using trimesh_from_pointmask_total[of pm self astype] kept_points_in_range[of pm self] by blast
  from a d s t show ?thesis
    by (simp only: set_kept_points used_points_iff simp_thms)
qed

theorem extracted_points_are_used_points_witness:
  "trimesh_from_pointmask [True, True, True, False] (PyStr ''self'') example_mesh = Inr compact_mesh
   \<and> rows (points compact_mesh)
       = map (\<lambda>i. rows (points example_mesh) ! nat i)
           (kept_points [True, True, True, False] example_mesh)
   \<and> n_points compact_mesh = card (used_points [True, True, True, False] (trilist example_mesh))
   \<and> used_points [True, True, True, False] (trilist example_mesh) = {0, 1, 2}"
proof -
  have e: "trimesh_from_pointmask [True, True, True, False] (PyStr ''self'') example_mesh
           = Inr compact_mesh"
    by code_simp
  have u: "used_points [True, True, True, False] (trilist example_mesh) = {0, 1, 2}"
    by (simp add: used_points_def surviving_tris_def survives_def mask_selected_def
        example_mesh_def tri_verts_def)
  from extracted_points_are_used_points
         [of "[True, True, True, False]" "PyStr ''self''" example_mesh] e u
  show ?thesis by simp
qed

text \<open>
  Claim C3.  Whenever \<open>trimesh_from_pointmask\<close> returns a mesh, each of its triangles has
  its three indices in the range from 0 up to, and excluding, the number of points of the
  returned mesh.  For a mask of length N on a mesh that satisfies the field invariant,
  with an accepted \<open>astype\<close>, the method does return.
\<close>

theorem extracted_triangles_in_range:
  "(\<forall>m'. trimesh_from_pointmask pm astype self = Inr m' \<longrightarrow>
        list_all (tri_in_range (n_points m')) (trilist m'))
   \<and> (length pm = n_points self \<and> field_invariant self \<and> recognised_astype astype \<longrightarrow>
        (\<exists>m'. trimesh_from_pointmask pm astype self = Inr m'))"
proof (intro conjI allI impI)
  fix m' assume "trimesh_from_pointmask pm astype self = Inr m'"
  from trimesh_from_pointmask_Inr_D[OF this]
  have "length pm = n_points self" "points m' = new_points pm self" "trilist m' = new_trilist pm self"
    by simp_all
  then show "list_all (tri_in_range (n_points m')) (trilist m')"
    using new_trilist_in_range[of pm self] by (simp add: n_points_new)
next
  assume "length pm = n_points self \<and> field_invariant self \<and> recognised_astype astype"
  then show "\<exists>m'. trimesh_from_pointmask pm astype self = Inr m'"
    using trimesh_from_pointmask_total by blast
qed

theorem extracted_triangles_in_range_witness:
  "trimesh_from_pointmask [True, True, True, False] (PyStr ''self'') example_mesh = Inr compact_mesh
   \<and> list_all (tri_in_range (n_points compact_mesh)) (trilist compact_mesh)"
proof -
  have e: "trimesh_from_pointmask [True, True, True, False] (PyStr ''self'') example_mesh
           = Inr compact_mesh"
    by code_simp
  from extracted_triangles_in_range
         [of "[True, True, True, False]" "PyStr ''self''" example_mesh] e
  show ?thesis by simp
qed

text \<open>
  The class path of the check of \<open>astype\<close>: a class that is not a subclass of TriMesh
  reaches the else branch of lines 109 to 111, and the Exception raised there carries the
  \<open>repr\<close> of the class in its message.  The failure is the result of the call, so no mesh
  is built.
\<close>

lemma non_subclass_astype_is_named:
  assumes len: "length pm = n_points self" and n: "\<not> issubclass c TriMesh"
  shows "trimesh_from_pointmask pm (PyCls c) self = Inl (Exception (mesh_type_msg c))
         \<and> sublist (repr_cls c) (mesh_type_msg c)"
  unfolding trimesh_from_pointmask_unfold[OF len]
  using n by (simp add: resolve_astype_def sublist_mesh_type_msg)

text \<open>
  Claim C7.  The claim asks that every \<open>astype\<close> that is neither \<open>'self'\<close> nor a TriMesh
  class make \<open>trimesh_from_pointmask\<close> fail with an error that names the rejected type,
  before the new mesh is built.  The else branch of lines 109 to 111 builds that error, and
  a class that is not a subclass of TriMesh gets it.  A value that is not a class never
  reaches the branch: on the mesh of scenario A with a mask of its length and the string
  \<open>'fast'\<close> as \<open>astype\<close>, the call \<open>issubclass(astype, TriMesh)\<close> of line 107 raises
  TypeError itself, and the message of that error does not mention the value.
\<close>

theorem non_class_astype_raises_unnamed_TypeError:
  "length [True, True, True, True] = n_points example_mesh
   \<and> trimesh_from_pointmask [True, True, True, True] (PyStr ''fast'') example_mesh
       = Inl (TypeError ''issubclass() arg 1 must be a class'')
   \<and> \<not> sublist ''fast'' ''issubclass() arg 1 must be a class''"
proof -
  have l: "length [True, True, True, True] = n_points example_mesh"
    by (simp add: example_mesh_def n_points_def)
  have e: "trimesh_from_pointmask [True, True, True, True] (PyStr ''fast'') example_mesh
             = Inl (TypeError ''issubclass() arg 1 must be a class'')"
    unfolding trimesh_from_pointmask_unfold[OF l] by (simp add: resolve_astype_def)
  have m: "\<not> sublist ''fast'' ''issubclass() arg 1 must be a class''"
    by code_simp
  from l e m show ?thesis by (intro conjI)
qed

lemma nothing_selected:
  assumes "list_all (\<lambda>b. \<not> b) pm"
  shows "\<not> mask_selected pm i"
proof
  assume "mask_selected pm i"
  then have l: "nat i < length pm" and s: "pm ! nat i" by (simp_all add: mask_selected_def)
  from l have "pm ! nat i \<in> set pm" by (rule nth_mem)
  with assms have "\<not> pm ! nat i" unfolding list_all_iff by blast
  with s show False by simp
qed

lemma no_selection_no_survivor:
  assumes "list_all (\<lambda>b. \<not> b) pm"
  shows "list_all (\<lambda>t. \<not> survives pm t) tlist"
proof -
  have "\<not> survives pm t" for t
    using nothing_selected[OF assms] by (cases t) (simp add: survives_def)
  then show ?thesis by (simp add: list_all_iff)
qed

lemma filter_zip_all_False:
  assumes a: "list_all (\<lambda>b. \<not> b) bm"
  shows "filter snd (zip rs bm) = []"
proof -
  have "\<not> snd p" if "p \<in> set (zip rs bm)" for p
  proof -
    from that have "(fst p, snd p) \<in> set (zip rs bm)" by simp
    then have "snd p \<in> set bm" by (rule set_zip_rightD)
    with a show ?thesis unfolding list_all_iff by blast
  qed
  then show ?thesis by (simp add: filter_empty_conv)
qed

text \<open>
  Claim C8.  For a mask of length N on a mesh that satisfies the field invariant, with an
  accepted \<open>astype\<close>: when the mask selects no point, or no triangle has all three
  vertices selected, \<open>trimesh_from_pointmask\<close> returns a mesh with no point and no
  triangle, in which every point field and every triangle field of the source is present
  under its name with an array of zero rows.
\<close>

theorem empty_selection_gives_empty_mesh:
  assumes len: "length pm = n_points self"
    and inv: "field_invariant self"
    and rec: "recognised_astype astype"
    and none: "list_all (\<lambda>b. \<not> b) pm \<or> list_all (\<lambda>t. \<not> survives pm t) (trilist self)"
  shows "\<exists>m'. trimesh_from_pointmask pm astype self = Inr m'
           \<and> n_points m' = 0 \<and> n_tris m' = 0
           \<and> list_all (\<lambda>nf. rows (snd nf) = []) (pointfields m')
           \<and> list_all (\<lambda>nf. rows (snd nf) = []) (trifields m')
           \<and> fst ` set (pointfields m') = fst ` set (pointfields self)
           \<and> fst ` set (trifields m') = fst ` set (trifields self)"
proof -
  have ns: "list_all (\<lambda>t. \<not> survives pm t) (trilist self)"
    using none no_selection_no_survivor by blast
  then have sv: "surviving_tris pm (trilist self) = []"
    by (simp add: surviving_tris_def filter_empty_conv list_all_iff)
  then have kp: "kept_points pm self = []"
    by (simp add: kept_points_def np_unique_def)
  have bm: "list_all (\<lambda>b. \<not> b) (map (survives pm) (trilist self))"
    using ns by (simp add: list_all_iff)
  obtain c where c: "resolve_astype (cls self) astype = Inr c"
    using resolve_astype_recognised[OF rec] by blast
  let ?pf = "resliced (pointfields self) (\<lambda>f. rows_at f (kept_points pm self)) []"
  let ?tf = "resliced (trifields self) (\<lambda>f. rows_where f (map (survives pm) (trilist self))) []"
  have p: "list_all (\<lambda>nf. rows (snd nf) = []) ?pf"
    by (rule resliced_values) (simp_all add: kp rows_at_def list_all_iff)
  have t: "list_all (\<lambda>nf. rows (snd nf) = []) ?tf"
    by (rule resliced_values) (simp_all add: rows_where_def filter_zip_all_False[OF bm] list_all_iff)
  have np: "rows (new_points pm self) = []"
    by (simp add: new_points_def kp rows_at_def)
  have nt: "new_trilist pm self = []"
    by (simp add: new_trilist_def sv)
  have kpf: "fst ` set ?pf = fst ` set (pointfields self)"
    by (simp add: resliced_keys)
  have ktf: "fst ` set ?tf = fst ` set (trifields self)"
    by (simp add: resliced_keys)
  let ?m = "\<lparr>cls = c, points = new_points pm self, pointfields = ?pf,
             trilist = new_trilist pm self, trifields = ?tf, texture = texture self\<rparr>"
  have e: "trimesh_from_pointmask pm astype self = Inr ?m"
    by (rule trimesh_from_pointmask_returns[OF len inv c])
  have c1: "n_points ?m = 0" using np by (simp add: n_points_def)
  have c2: "n_tris ?m = 0" using nt by (simp add: n_tris_def)
  have c3: "list_all (\<lambda>nf. rows (snd nf) = []) (pointfields ?m)" using p by simp
  have c4: "list_all (\<lambda>nf. rows (snd nf) = []) (trifields ?m)" using t by simp
  have c5: "fst ` set (pointfields ?m) = fst ` set (pointfields self)" using kpf by simp
  have c6: "fst ` set (trifields ?m) = fst ` set (trifields self)" using ktf by simp
  from e c1 c2 c3 c4 c5 c6 show ?thesis by (intro exI[of _ ?m] conjI)
qed

theorem empty_selection_gives_empty_mesh_witness:
  "trimesh_from_pointmask [True, True, False, False] (PyStr ''self'') example_mesh
     = Inr \<lparr>cls = TriMesh, points = \<lparr>rows = [], inner = [3]\<rparr>,
            pointfields = [(''color'', \<lparr>rows = [], inner = []\<rparr>)], trilist = [],
            trifields = [(''area'', \<lparr>rows = [], inner = []\<rparr>)], texture = Some 5\<rparr>
   \<and> (\<exists>m'. trimesh_from_pointmask [True, True, False, False] (PyStr ''self'') example_mesh = Inr m'
           \<and> n_points m' = 0 \<and> n_tris m' = 0
           \<and> list_all (\<lambda>nf. rows (snd nf) = []) (pointfields m')
           \<and> list_all (\<lambda>nf. rows (snd nf) = []) (trifields m')
           \<and> fst ` set (pointfields m') = fst ` set (pointfields example_mesh)
           \<and> fst ` set (trifields m') = fst ` set (trifields example_mesh))"
proof -
  have e: "trimesh_from_pointmask [True, True, False, False] (PyStr ''self'') example_mesh
     = Inr \<lparr>cls = TriMesh, points = \<lparr>rows = [], inner = [3]\<rparr>,
            pointfields = [(''color'', \<lparr>rows = [], inner = []\<rparr>)], trilist = [],
            trifields = [(''area'', \<lparr>rows = [], inner = []\<rparr>)], texture = Some 5\<rparr>"
    by code_simp
  have h1: "length [True, True, False, False] = n_points example_mesh"
    by (simp add: example_mesh_def n_points_def)
  have h2: "field_invariant example_mesh"
    by (simp add: field_invariant_def example_mesh_def n_points_def n_tris_def)
  have h3: "recognised_astype (PyStr ''self'')"
    by (simp add: recognised_astype_def)
  have h4: "list_all (\<lambda>b. \<not> b) [True, True, False, False]
     \<or> list_all (\<lambda>t. \<not> survives [True, True, False, False] t) (trilist example_mesh)"
    by (simp add: example_mesh_def survives_def mask_selected_def)
  from e empty_selection_gives_empty_mesh[OF h1 h2 h3 h4] show ?thesis by (rule conjI)
qed

lemma all_selected: "mask_selected (replicate n True) i \<longleftrightarrow> index_in_range n i"
proof
  assume "mask_selected (replicate n True) i"
  then show "index_in_range n i" by (simp add: mask_selected_def index_in_range_def) linarith
next
  assume "index_in_range n i"
  then have "0 \<le> i" "nat i < n" by (simp_all add: index_in_range_def) linarith
  then show "mask_selected (replicate n True) i" by (simp add: mask_selected_def)
qed

lemma survives_all: "survives (replicate n True) t = tri_in_range n t"
  by (cases t) (simp add: survives_def tri_in_range_def all_selected)

lemma surviving_all:
  "list_all (tri_in_range n) tlist \<Longrightarrow> surviving_tris (replicate n True) tlist = tlist"
  by (simp add: surviving_tris_def survives_all list_all_iff)

lemma select_all_rows:
  "length rs = length bm \<Longrightarrow> list_all (\<lambda>b. b) bm \<Longrightarrow> map fst (filter snd (zip rs bm)) = rs"
  by (induction rs bm rule: list_induct2) simp_all

lemma length_np_arange: "length (np_arange n) = n"
  by (simp add: np_arange_def)

lemma sorted_np_arange: "sorted (np_arange n)"
  by (induction n) (auto simp: np_arange_def sorted_append)

lemma distinct_np_arange: "distinct (np_arange n)"
  by (simp add: np_arange_def distinct_map inj_on_def)

lemma set_np_arange: "set (np_arange n) = {i. index_in_range n i}"
proof (intro set_eqI iffI)
  fix i assume "i \<in> set (np_arange n)"
  then show "i \<in> {i. index_in_range n i}" by (auto simp: np_arange_def index_in_range_def)
next
  fix i assume "i \<in> {i. index_in_range n i}"
  then have "0 \<le> i" "nat i < n" by (simp_all add: index_in_range_def) linarith
  then have "int (nat i) \<in> int ` {0..<n}" by (intro imageI) simp
  then show "i \<in> set (np_arange n)" using \<open>0 \<le> i\<close> by (simp add: np_arange_def)
qed

lemma put_all_arange: "put_all (replicate n 0) (np_arange n) (np_arange n) = np_arange n"
proof (rule nth_equalityI)
  show "length (put_all (replicate n 0) (np_arange n) (np_arange n)) = length (np_arange n)"
    by (simp add: np_arange_def)
next
  fix j assume "j < length (put_all (replicate n 0) (np_arange n) (np_arange n))"
  then have j: "j < n" by simp
  have rng: "list_all (index_in_range (length (replicate n (0::int)))) (np_arange n)"
    by (simp add: np_arange_def list_all_iff index_in_range_def)
  have jl: "j < length (np_arange n)" using j by (simp add: np_arange_def)
  have "put_all (replicate n 0) (np_arange n) (np_arange n) ! nat (np_arange n ! j)
        = np_arange n ! j"
    using refl distinct_np_arange rng jl by (rule put_all_nth)
  then show "put_all (replicate n 0) (np_arange n) (np_arange n) ! j = np_arange n ! j"
    using j by (simp add: np_arange_def)
qed

lemma renumber_arange:
  assumes "tri_in_range n t" and "n \<le> 2 ^ 32"
  shows "renumber (np_arange n) t = t"
proof -
  have v: "astype_uint32 (np_arange n ! nat a) = a" if "index_in_range n a" for a
  proof -
    from that have a: "0 \<le> a" "nat a < n" by (simp_all add: index_in_range_def) linarith
    then have "np_arange n ! nat a = a" by (simp add: np_arange_def)
    moreover have "a < int n" using a by linarith
    moreover have "int n \<le> 2 ^ 32" using of_nat_mono[OF assms(2), where 'a = int] by simp
    ultimately have "np_arange n ! nat a = a" "a < 2 ^ 32" by linarith+
    moreover note a(1)
    ultimately show ?thesis by (simp add: astype_uint32_def)
  qed
  obtain a b c where t: "t = (a, b, c)" by (cases t)
  with assms(1) show ?thesis
    by (simp add: renumber_def astype_uint32_tri_def tri_in_range_def v)
qed

lemma rows_at_arange:
  assumes n: "length (rows f) = n"
  shows "rows_at f (np_arange n) = f"
proof -
  have "map ((!) (rows f)) [0..<n] = rows f" unfolding n[symmetric] by (rule map_nth)
  then show ?thesis by (simp add: rows_at_def np_arange_def comp_def)
qed

lemma rows_where_all:
  "length (rows f) = length bm \<Longrightarrow> list_all (\<lambda>b. b) bm \<Longrightarrow> rows_where f bm = f"
  by (simp add: rows_where_def select_all_rows)

lemma resliced_id:
  assumes "distinct (map fst fs)" and "list_all (\<lambda>nf. g (snd nf) = snd nf) fs"
  shows "resliced fs g [] = fs"
proof -
  have "map (\<lambda>nf. (fst nf, g (snd nf))) fs = fs"
    using assms(2) by (intro map_idI) (simp add: list_all_iff)
  then show ?thesis using resliced_distinct[OF assms(1), of "[]" g] by simp
qed

lemma kept_points_all:
  assumes rng: "tris_in_range self" and used: "every_point_used self"
  shows "kept_points (replicate (n_points self) True) self = np_arange (n_points self)"
proof -
  let ?n = "n_points self"
  have sv: "surviving_tris (replicate ?n True) (trilist self) = trilist self"
    using rng by (simp add: surviving_all tris_in_range_def)
  have "set (np_unique (trilist self)) = set (np_arange ?n)"
  proof (intro equalityI subsetI)
    fix i assume "i \<in> set (np_unique (trilist self))"
    then have "index_in_range ?n i"
      using np_unique_in_range[of ?n "trilist self"] rng
      by (simp add: tris_in_range_def list_all_iff)
    then show "i \<in> set (np_arange ?n)" by (simp add: set_np_arange)
  next
    fix i assume "i \<in> set (np_arange ?n)"
    then show "i \<in> set (np_unique (trilist self))"
      using used unfolding every_point_used_def list_all_iff set_np_unique by blast
  qed
  then have "np_unique (trilist self) = np_arange ?n"
    using sorted_np_unique distinct_np_unique sorted_np_arange distinct_np_arange
    by (intro sorted_distinct_set_unique)
  then show ?thesis by (simp add: kept_points_def sv)
qed

text \<open>
  Claim C1.  As stated (for every mesh, the mask that retains every point gives back a mesh
  equal to the source) the claim fails: the extraction keeps only the points that belong
  to a surviving triangle, so a point that no triangle uses is removed even when the mask
  retains it, and every point field loses the matching row.  The mesh of scenario A has
  four points and the single triangle (0, 1, 2); under the all-true mask it comes back with
  three points.
\<close>

theorem all_true_mask_counterexample:
  "list_all (\<lambda>b. b) [True, True, True, True]
   \<and> length [True, True, True, True] = n_points example_mesh
   \<and> trimesh_from_pointmask [True, True, True, True] (PyStr ''self'') example_mesh
       = Inr compact_mesh
   \<and> points compact_mesh \<noteq> points example_mesh
   \<and> pointfields compact_mesh \<noteq> pointfields example_mesh"
proof -
  have e: "trimesh_from_pointmask [True, True, True, True] (PyStr ''self'') example_mesh
       = Inr compact_mesh"
    by code_simp
  have d: "points compact_mesh \<noteq> points example_mesh"
    "pointfields compact_mesh \<noteq> pointfields example_mesh"
    by (simp_all add: compact_mesh_def example_mesh_def)
  have l: "length [True, True, True, True] = n_points example_mesh"
    by (simp add: example_mesh_def n_points_def)
  from e d l show ?thesis by simp
qed

text \<open>
  Claim C1, amended.  For every mesh in which every point belongs to at least one triangle
  (and which is well formed: the field invariant holds, each field name occurs once in its
  table, every triangle index is in the range of the points, and there are at most
  \<open>2 ^ 32\<close> points, the range of the cast of the new indices), extraction with the mask
  that retains every point and \<open>astype = 'self'\<close> returns a mesh equal to the source in
  class, points, triangle list, point fields, triangle fields and texture.
\<close>

theorem all_true_mask_returns_source_when_every_point_is_used:
  assumes inv: "field_invariant self"
    and keys: "dict_keys_distinct self"
    and rng: "tris_in_range self"
    and used: "every_point_used self"
    and small: "n_points self \<le> 2 ^ 32"
  shows "trimesh_from_pointmask (replicate (n_points self) True) (PyStr ''self'') self = Inr self"
proof -
  let ?n = "n_points self"
  let ?pm = "replicate ?n True"
  have len: "length ?pm = n_points self" by simp
  have c: "resolve_astype (cls self) (PyStr ''self'') = Inr (cls self)"
    by (simp add: resolve_astype_def)
  have kp: "kept_points ?pm self = np_arange ?n"
    using rng used by (rule kept_points_all)
  have sv: "surviving_tris ?pm (trilist self) = trilist self"
    using rng by (simp add: surviving_all tris_in_range_def)
  have pts: "new_points ?pm self = points self"
    unfolding new_points_def kp by (rule rows_at_arange) (simp add: n_points_def)
  have pim: "new_pi_map ?pm self = np_arange ?n"
    unfolding new_pi_map_def kp length_np_arange by (rule put_all_arange)
  have "map (renumber (np_arange ?n)) (trilist self) = trilist self"
    using rng small by (intro map_idI renumber_arange) (simp_all add: tris_in_range_def list_all_iff)
  then have tris: "new_trilist ?pm self = trilist self"
    by (simp add: new_trilist_def pim sv)
  have "list_all (\<lambda>nf. rows_at (snd nf) (np_arange ?n) = snd nf) (pointfields self)"
    using inv by (simp add: field_invariant_def list_all_iff rows_at_arange)
  then have pf: "resliced (pointfields self) (\<lambda>f. rows_at f (kept_points ?pm self)) []
                = pointfields self"
    using keys unfolding kp by (intro resliced_id) (simp_all add: dict_keys_distinct_def)
  have bm: "list_all (\<lambda>b. b) (map (survives ?pm) (trilist self))"
    using rng by (simp add: survives_all tris_in_range_def list_all_iff)
  have "list_all (\<lambda>nf. rows_where (snd nf) (map (survives ?pm) (trilist self)) = snd nf)
          (trifields self)"
    using inv bm by (simp add: field_invariant_def list_all_iff rows_where_all n_tris_def)
  then have tf: "resliced (trifields self)
                   (\<lambda>f. rows_where f (map (survives ?pm) (trilist self))) [] = trifields self"
    using keys by (intro resliced_id) (simp_all add: dict_keys_distinct_def)
  show ?thesis
    unfolding trimesh_from_pointmask_returns[OF len inv c] pts tris pf tf
    by simp
qed

theorem all_true_mask_returns_source_when_every_point_is_used_witness:
  "trimesh_from_pointmask (replicate (n_points compact_mesh) True) (PyStr ''self'') compact_mesh
     = Inr compact_mesh"
proof -
  have h1: "field_invariant compact_mesh"
    by (simp add: field_invariant_def compact_mesh_def n_points_def n_tris_def)
  have h2: "dict_keys_distinct compact_mesh"
    by (simp add: dict_keys_distinct_def compact_mesh_def)
  have h3: "tris_in_range compact_mesh"
    by (simp add: tris_in_range_def tri_in_range_def index_in_range_def compact_mesh_def
        n_points_def)
  have h4: "every_point_used compact_mesh"
    by (simp add: every_point_used_def compact_mesh_def n_points_def np_arange_def tri_verts_def
        upt_rec[of 0] upt_rec[of 1] upt_rec[of 2])
  have h5: "n_points compact_mesh \<le> 2 ^ 32"
    by (simp add: compact_mesh_def n_points_def)
  from all_true_mask_returns_source_when_every_point_is_used[OF h1 h2 h3 h4 h5]
  show ?thesis .
qed

end
